theory Spec2Isabelle
  imports Main "HOL-Library.Sublist"
begin

section \<open>Python strings\<close>

text \<open>
  A Python \<open>str\<close> is a sequence of Unicode code points, and \<open>len\<close> counts code points.
  The program uses three characters beyond ASCII (the ellipsis of \<open>format_line\<close>, the
  en dash of the error placeholders, the apostrophe of the usage hint), so a string is
  modelled as a list of code points. \<open>str\<close> turns an ASCII literal into such a list.
\<close>

type_synonym pystr = "nat list"

definition str :: "string \<Rightarrow> pystr" where
  "str s = map of_char s"

definition NEWLINE :: nat where
  "NEWLINE = 10"

definition ELLIPSIS :: nat where
  "ELLIPSIS = 8230"

definition EN_DASH :: nat where
  "EN_DASH = 8211"

definition APOSTROPHE :: nat where
  "APOSTROPHE = 8217"

text \<open>Truthiness of an optional string: \<open>None\<close> and \<open>""\<close> are falsy.\<close>

definition truthy :: "pystr option \<Rightarrow> bool" where
  "truthy x = (case x of None \<Rightarrow> False | Some s \<Rightarrow> s \<noteq> [])"

text \<open>\<open>a or b\<close> where \<open>a\<close> is an optional string and \<open>b\<close> a string.\<close>

definition or_else :: "pystr option \<Rightarrow> pystr \<Rightarrow> pystr" where
  "or_else a b = (case a of None \<Rightarrow> b | Some s \<Rightarrow> if s \<noteq> [] then s else b)"

text \<open>An optional string inside an f-string: \<open>None\<close> is rendered as the word \<open>None\<close>.\<close>

definition fmt_opt :: "pystr option \<Rightarrow> pystr" where
  "fmt_opt x = (case x of None \<Rightarrow> str ''None'' | Some s \<Rightarrow> s)"

text \<open>
  \<open>text.replace(old, new)\<close>: the occurrences of \<open>old\<close> are found from the left and do not
  overlap; with an empty \<open>old\<close>, \<open>new\<close> is put before every character and at the end.
\<close>

function py_replace :: "pystr \<Rightarrow> pystr \<Rightarrow> pystr \<Rightarrow> pystr" where
  "py_replace [] old new = (if old = [] then new else [])"
| "py_replace (c # cs) old new =
     (if old = [] then new @ c # py_replace cs old new
      else if prefix old (c # cs) then new @ py_replace (drop (length old) (c # cs)) old new
      else c # py_replace cs old new)"
  by pat_completeness auto
termination
  by (relation "measure (\<lambda>(t, old, new). length t)") auto

text \<open>\<open>sub in text\<close> on strings is containment as a contiguous substring.\<close>

definition py_in :: "pystr \<Rightarrow> pystr \<Rightarrow> bool" where
  "py_in sub t = sublist sub t"

text \<open>The characters \<open>str.isspace\<close> accepts, which \<open>str.strip()\<close> removes at both ends.\<close>

definition isspace :: "nat \<Rightarrow> bool" where
  "isspace c = ((9 \<le> c \<and> c \<le> 13) \<or> (28 \<le> c \<and> c \<le> 32) \<or> c = 133 \<or> c = 160
      \<or> c = 5760 \<or> (8192 \<le> c \<and> c \<le> 8202) \<or> c = 8232 \<or> c = 8233 \<or> c = 8239
      \<or> c = 8287 \<or> c = 12288)"

definition strip :: "pystr \<Rightarrow> pystr" where
  "strip s = rev (dropWhile isspace (rev (dropWhile isspace s)))"

text \<open>\<open>sep.join(xs)\<close>.\<close>

fun join :: "pystr \<Rightarrow> pystr list \<Rightarrow> pystr" where
  "join sep [] = []"
| "join sep [x] = x"
| "join sep (x # y # ys) = x @ sep @ join sep (y # ys)"

text \<open>The slice \<open>text[:k]\<close>: a negative \<open>k\<close> counts from the end.\<close>

definition slice_to :: "'a list \<Rightarrow> int \<Rightarrow> 'a list" where
  "slice_to xs k = (if 0 \<le> k then take (nat k) xs else take (nat (int (length xs) + k)) xs)"

section \<open>Telegram objects, configuration and global state\<close>

record user =
  uid :: int
  first_name :: pystr
  last_name :: "pystr option"
  username :: "pystr option"

text \<open>
  The fields of \<open>types.Message\<close> the program reads. The handler is registered for group
  and supergroup chats, where Telegram always fills in the sender.
\<close>

datatype message = Message
  (chat_id: int)
  (from_user: user)
  (m_text: "pystr option")
  (m_caption: "pystr option")
  (m_content_type: pystr)
  (reply_to_message: "message option")

text \<open>The module-level constants read from the environment.\<close>

record config =
  XAI_API_KEY :: "pystr option"
  MAX_SNIPPET_LEN :: int
  MESSAGE_HISTORY_LIMIT :: int

text \<open>The module-level variables that change: the bot identity and the rolling history.\<close>

record state =
  BOT_USERNAME :: "pystr option"
  BOT_DISPLAY :: "pystr option"
  BOT_ID :: "int option"
  HISTORY :: "int \<rightharpoonup> (bool \<times> pystr) list"

section \<open>Snippet formatting\<close>

definition format_user :: "user \<Rightarrow> pystr" where
  "format_user u =
     (let name = join (str '' '') (map the (filter truthy [Some (first_name u), last_name u]))
      in if truthy (username u) then name @ str '' (@'' @ the (username u) @ str '')''
         else name)"

text \<open>Lines 90 and 91 of \<open>format_line\<close>: the text of the message, made one line.\<close>

definition source_text :: "message \<Rightarrow> pystr" where
  "source_text msg =
     (let text = or_else (m_text msg) (or_else (m_caption msg)
                   (str ''['' @ m_content_type msg @ str '' message]''))
      in py_replace text [NEWLINE] (str '' ''))"

text \<open>Lines 92 and 93: the cut to \<open>MAX_SNIPPET_LEN\<close>.\<close>

definition snippet :: "config \<Rightarrow> message \<Rightarrow> pystr" where
  "snippet cfg msg =
     (let text = source_text msg
      in if int (length text) > MAX_SNIPPET_LEN cfg
         then slice_to text (MAX_SNIPPET_LEN cfg - 1) @ [ELLIPSIS]
         else text)"

definition format_line :: "config \<Rightarrow> state \<Rightarrow> message \<Rightarrow> bool \<Rightarrow> pystr" where
  "format_line cfg s msg is_bot_msg =
     (let text = snippet cfg msg
      in if is_bot_msg then str ''> '' @ fmt_opt (BOT_DISPLAY s) @ str '' (you): '' @ text
         else str ''> '' @ format_user (from_user msg) @ str '': '' @ text)"


section \<open>Errors and effects\<close>

text \<open>The exceptions the program can raise, as values.\<close>

datatype error =
    RuntimeError pystr
  | TypeError
  | ValueError
  | KeyError
  | IndexError
  | AttributeError
  | OverflowError
  | ValidationError
  | TokenValidationError

section \<open>The rolling history\<close>

text \<open>
  \<open>deque.append\<close> on a deque with \<open>maxlen\<close>: the item is added on the right and, when the
  deque is then longer than \<open>maxlen\<close>, the leftmost item is dropped.
\<close>

definition deque_append :: "nat \<Rightarrow> 'a list \<Rightarrow> 'a \<Rightarrow> 'a list" where
  "deque_append maxlen d x = (let d' = d @ [x] in if length d' > maxlen then tl d' else d')"

text \<open>
  The default factory of \<open>_HISTORY\<close>, \<open>deque(maxlen=MESSAGE_HISTORY_LIMIT)\<close>. The bound is
  converted to a C \<open>ssize_t\<close> (64 bits), which raises \<open>OverflowError\<close> outside
  \<open>-2^63 .. 2^63 - 1\<close>; a negative bound is then refused with \<open>ValueError\<close>.
\<close>

definition new_deque :: "config \<Rightarrow> error + (bool \<times> pystr) list" where
  "new_deque cfg =
     (if MESSAGE_HISTORY_LIMIT cfg < - (2 ^ 63) \<or> 2 ^ 63 \<le> MESSAGE_HISTORY_LIMIT cfg
        then Inl OverflowError
      else if MESSAGE_HISTORY_LIMIT cfg < 0 then Inl ValueError
      else Inr [])"

text \<open>\<open>_HISTORY[chat_id]\<close>: a missing key is created with a new empty deque.\<close>

definition history_getitem ::
  "config \<Rightarrow> (int \<rightharpoonup> (bool \<times> pystr) list) \<Rightarrow> int
     \<Rightarrow> error + ((int \<rightharpoonup> (bool \<times> pystr) list) \<times> (bool \<times> pystr) list)" where
  "history_getitem cfg H c =
     (case H c of
        Some d \<Rightarrow> Inr (H, d)
      | None \<Rightarrow> (case new_deque cfg of Inl e \<Rightarrow> Inl e | Inr d \<Rightarrow> Inr (H(c \<mapsto> d), d)))"

text \<open>\<open>_HISTORY[chat_id].append(entry)\<close>.\<close>

definition history_append ::
  "config \<Rightarrow> (int \<rightharpoonup> (bool \<times> pystr) list) \<Rightarrow> int \<Rightarrow> bool \<times> pystr
     \<Rightarrow> error + (int \<rightharpoonup> (bool \<times> pystr) list)" where
  "history_append cfg H c x =
     (case history_getitem cfg H c of
        Inl e \<Rightarrow> Inl e
      | Inr (H', d) \<Rightarrow> Inr (H'(c \<mapsto> deque_append (nat (MESSAGE_HISTORY_LIMIT cfg)) d x)))"

text \<open>A run of appends, one after the other, stopping at the first exception.\<close>

fun history_appends ::
  "config \<Rightarrow> (int \<rightharpoonup> (bool \<times> pystr) list) \<Rightarrow> (int \<times> bool \<times> pystr) list
     \<Rightarrow> error + (int \<rightharpoonup> (bool \<times> pystr) list)" where
  "history_appends cfg H [] = Inr H"
| "history_appends cfg H ((c, x) # ops) =
     (case history_append cfg H c x of
        Inl e \<Rightarrow> Inl e
      | Inr H' \<Rightarrow> history_appends cfg H' ops)"

text \<open>The entries a run of appends adds to conversation \<open>c\<close>, in the order of the run.\<close>

definition lines_of :: "int \<Rightarrow> (int \<times> bool \<times> pystr) list \<Rightarrow> (bool \<times> pystr) list" where
  "lines_of c ops = map snd (filter (\<lambda>op. fst op = c) ops)"

text \<open>The history after one successful append of \<open>x\<close> to conversation \<open>c\<close>.\<close>

definition appended ::
  "config \<Rightarrow> (int \<rightharpoonup> (bool \<times> pystr) list) \<Rightarrow> int \<Rightarrow> bool \<times> pystr
     \<Rightarrow> (int \<rightharpoonup> (bool \<times> pystr) list)" where
  "appended cfg H c x =
     H(c \<mapsto> deque_append (nat (MESSAGE_HISTORY_LIMIT cfg))
                (case H c of None \<Rightarrow> [] | Some d \<Rightarrow> d) x)"

section \<open>The completion service\<close>

text \<open>A parsed JSON document (numbers are kept as integers).\<close>

datatype json =
    JNull
  | JBool bool
  | JNum int
  | JStr pystr
  | JArr "json list"
  | JObj "(pystr \<times> json) list"

text \<open>
  \<open>v[key]\<close> with a string key: a dict looks the key up (the last of duplicated keys wins
  when the document is parsed); every other value raises \<open>TypeError\<close>.
\<close>

definition getitem_key :: "json \<Rightarrow> pystr \<Rightarrow> error + json" where
  "getitem_key v k =
     (case v of
        JObj kvs \<Rightarrow> (case map_of (rev kvs) k of None \<Rightarrow> Inl KeyError | Some x \<Rightarrow> Inr x)
      | _ \<Rightarrow> Inl TypeError)"

text \<open>
  \<open>v[0]\<close>: the first item of a list or the first character of a string, \<open>IndexError\<close> when
  there is none; a dict has only string keys, so \<open>KeyError\<close>; otherwise \<open>TypeError\<close>.
\<close>

definition getitem_0 :: "json \<Rightarrow> error + json" where
  "getitem_0 v =
     (case v of
        JArr xs \<Rightarrow> (case xs of [] \<Rightarrow> Inl IndexError | x # _ \<Rightarrow> Inr x)
      | JStr s \<Rightarrow> (case s of [] \<Rightarrow> Inl IndexError | c # _ \<Rightarrow> Inr (JStr [c]))
      | JObj kvs \<Rightarrow> Inl KeyError
      | _ \<Rightarrow> Inl TypeError)"

definition bind :: "error + 'a \<Rightarrow> ('a \<Rightarrow> error + 'b) \<Rightarrow> error + 'b" where
  "bind m f = (case m of Inl e \<Rightarrow> Inl e | Inr x \<Rightarrow> f x)"

text \<open>The request body (\<open>payload\<close>) and the request \<open>client.post\<close> sends.\<close>

record payload =
  model :: pystr
  messages :: "(pystr \<times> pystr) list"

record http_request =
  url :: pystr
  authorization :: pystr
  body :: payload

text \<open>
  What \<open>client.post\<close> gives: an exception of the \<open>httpx.HTTPError\<close> family with its text
  (connection failure, timeout), or a response. Of a response the program uses the status
  code, the text of the \<open>HTTPStatusError\<close> that \<open>raise_for_status\<close> raises for it, and the
  parsed body (\<open>None\<close> when \<open>r.json()\<close> raises \<open>ValueError\<close>).
\<close>

record response =
  status_code :: nat
  status_error :: pystr
  body_json :: "json option"

datatype http_result = RequestError pystr | Responded response

datatype effect =
    GetMe
  | Reply pystr
  | ChatAction pystr
  | HttpPost http_request
  | Answer json

definition SYSTEM_INSTRUCTION :: pystr where
  "SYSTEM_INSTRUCTION =
     str ''You are Grok integrated into a Telegram group chat. ''
     @ str ''Respond concisely and helpfully using the context.''"

text \<open>Lines 132 to 137 of \<open>ask_grok\<close>: the blocks of the user content.\<close>

definition build_blocks :: "pystr list \<Rightarrow> pystr option \<Rightarrow> pystr \<Rightarrow> pystr list" where
  "build_blocks history_lines replied_line prompt =
     (if history_lines \<noteq> []
      then [str ''Chat history:'' @ [NEWLINE] @ join [NEWLINE] history_lines] else [])
     @ (if truthy replied_line \<and> the replied_line \<notin> set history_lines
        then [str ''Replied message:'' @ [NEWLINE] @ the replied_line] else [])
     @ [str ''User prompt:'' @ [NEWLINE] @ prompt]"

text \<open>Lines 139 to 151.\<close>

definition build_payload :: "pystr list \<Rightarrow> pystr option \<Rightarrow> pystr \<Rightarrow> payload" where
  "build_payload history_lines replied_line prompt =
     \<lparr>model = str ''grok-4'',
      messages = [(str ''system'', SYSTEM_INSTRUCTION),
                  (str ''user'',
                   join [NEWLINE, NEWLINE] (build_blocks history_lines replied_line prompt))]\<rparr>"

definition api_error :: "pystr \<Rightarrow> json" where
  "api_error detail = JStr (str ''<Grok API error '' @ [EN_DASH] @ str '' '' @ detail @ str ''>'')"

definition malformed :: json where
  "malformed = JStr (str ''<Grok response malformed '' @ [EN_DASH] @ str '' expected JSON>'')"

text \<open>
  Lines 154 to 169: what \<open>ask_grok\<close> does with the outcome of the POST. Only
  \<open>httpx.HTTPError\<close> and the \<open>ValueError\<close> of \<open>r.json()\<close> are caught; an exception raised by
  the subscripts of line 167 leaves the function.
\<close>

definition handle_result :: "http_result \<Rightarrow> error + json" where
  "handle_result res =
     (case res of
        RequestError detail \<Rightarrow> Inr (api_error detail)
      | Responded r \<Rightarrow>
          if \<not> (200 \<le> status_code r \<and> status_code r \<le> 299) then Inr (api_error (status_error r))
          else (case body_json r of
                  None \<Rightarrow> Inr malformed
                | Some data \<Rightarrow>
                    bind (getitem_key data (str ''choices'')) (\<lambda>choices.
                    bind (getitem_0 choices) (\<lambda>choice.
                    bind (getitem_key choice (str ''message'')) (\<lambda>message.
                    getitem_key message (str ''content''))))))"


text \<open>
  \<open>ask_grok\<close>: the new state (reading \<open>_HISTORY[chat_id]\<close> may create the buffer), the
  effects in order, and the value returned (\<open>Inr\<close>) or the exception raised (\<open>Inl\<close>).
\<close>

definition ask_grok ::
  "config \<Rightarrow> (http_request \<Rightarrow> http_result) \<Rightarrow> state \<Rightarrow> int \<Rightarrow> pystr \<Rightarrow> pystr option
     \<Rightarrow> state \<times> effect list \<times> (error + json)" where
  "ask_grok cfg http s chat prompt replied_line =
     (if \<not> truthy (XAI_API_KEY cfg) then (s, [], Inr (JStr (str ''<XAI_API_KEY missing>'')))
      else (case history_getitem cfg (HISTORY s) chat of
              Inl e \<Rightarrow> (s, [], Inl e)
            | Inr (H, d) \<Rightarrow>
                let history_lines = map snd d;
                    req = \<lparr>url = str ''https://api.x.ai/v1/chat/completions'',
                           authorization = str ''Bearer '' @ the (XAI_API_KEY cfg),
                           body = build_payload history_lines replied_line prompt\<rparr>
                in (s\<lparr>HISTORY := H\<rparr>, [HttpPost req], handle_result (http req))))"

section \<open>The group handler\<close>

text \<open>
  What the handler takes from outside the repository:
  \<^item> \<open>str_lower\<close>: \<open>str.lower()\<close>, the case mapping of Unicode, whose tables are part of
    the Python runtime;
  \<^item> \<open>get_me\<close>: the bot's own user, as \<open>bot.get_me()\<close> returns it;
  \<^item> \<open>post\<close>: the outcome of the POST to the completion service;
  \<^item> \<open>send_answer\<close>: the outcome of \<open>msg.answer(text)\<close> for a string: the message object
    of the sent answer, or the exception raised when Telegram refuses the text (an empty
    text, a text that is too long or that it cannot parse).

  The calls with fixed arguments (\<open>msg.reply\<close> with the usage hint, \<open>msg.chat.do\<close>) are
  modelled as succeeding.
\<close>

record env =
  str_lower :: "pystr \<Rightarrow> pystr"
  get_me :: user
  post :: "http_request \<Rightarrow> http_result"
  send_answer :: "pystr \<Rightarrow> error + message"

text \<open>
  \<open>ensure_identity\<close>: fills the identity in on first use. \<open>me.username.lower()\<close> raises
  \<open>AttributeError\<close> on a user without a username.
\<close>

definition ensure_identity :: "env \<Rightarrow> state \<Rightarrow> state \<times> effect list \<times> error option" where
  "ensure_identity e s =
     (if BOT_USERNAME s = None then
        (let me = get_me e in
         case username me of
           None \<Rightarrow> (s, [GetMe], Some AttributeError)
         | Some name \<Rightarrow>
             (s\<lparr>BOT_USERNAME := Some (str ''@'' @ str_lower e name),
                BOT_DISPLAY := Some (or_else (Some (first_name me)) (str ''Bot'')),
                BOT_ID := Some (uid me)\<rparr>, [GetMe], None))
      else (s, [], None))"

definition usage_hint :: "pystr \<Rightarrow> pystr" where
  "usage_hint handle =
     str ''Add a prompt after mentioning me, e.g. '' @ handle @ str '' what'' @ [APOSTROPHE]
     @ str ''s up?''"

text \<open>
  Lines 205 to 216 of \<open>handle_group\<close>: the path of a message with a prompt. The value that
  \<open>ask_grok\<close> returns is whatever the response holds as content; \<open>msg.answer\<close> raises
  \<open>ValidationError\<close> on a value that is not a string. The effect \<open>Answer\<close> stands for an
  answer that was sent; when \<open>msg.answer\<close> raises, nothing is appended to the history.
\<close>

definition answer_prompt ::
  "env \<Rightarrow> config \<Rightarrow> message \<Rightarrow> pystr \<Rightarrow> state \<Rightarrow> state \<times> effect list \<times> error option" where
  "answer_prompt e cfg msg prompt s =
     (let reply = (case reply_to_message msg of
                     None \<Rightarrow> None
                   | Some r \<Rightarrow> Some (format_line cfg s r (Some (uid (from_user r)) = BOT_ID s)))
      in case ask_grok cfg (post e) s (chat_id msg) prompt reply of
           (s2, t, Inl err) \<Rightarrow> (s2, ChatAction (str ''typing'') # t, Some err)
         | (s2, t, Inr answer) \<Rightarrow>
             (case answer of
                JStr text \<Rightarrow>
                  (case send_answer e text of
                     Inl err \<Rightarrow> (s2, ChatAction (str ''typing'') # t, Some err)
                   | Inr sent \<Rightarrow>
                       (case history_append cfg (HISTORY s2) (chat_id msg)
                               (True, format_line cfg s2 sent True) of
                          Inl err \<Rightarrow>
                            (s2, ChatAction (str ''typing'') # t @ [Answer answer], Some err)
                        | Inr H \<Rightarrow>
                            (s2\<lparr>HISTORY := H\<rparr>,
                             ChatAction (str ''typing'') # t @ [Answer answer], None)))
              | _ \<Rightarrow> (s2, ChatAction (str ''typing'') # t, Some ValidationError)))"

text \<open>
  \<open>handle_group\<close>: the final state, the effects in order, and the exception that left the
  handler, if any. \<open>BOT_USERNAME not in ...\<close> raises \<open>TypeError\<close> on \<open>None\<close>.
\<close>

definition handle_group ::
  "env \<Rightarrow> config \<Rightarrow> message \<Rightarrow> state \<Rightarrow> state \<times> effect list \<times> error option" where
  "handle_group e cfg msg s0 =
     (case ensure_identity e s0 of
        (s1, t1, Some err) \<Rightarrow> (s1, t1, Some err)
      | (s1, t1, None) \<Rightarrow>
          (let is_bot_msg = (Some (uid (from_user msg)) = BOT_ID s1)
           in case history_append cfg (HISTORY s1) (chat_id msg)
                     (is_bot_msg, format_line cfg s1 msg is_bot_msg) of
                Inl err \<Rightarrow> (s1, t1, Some err)
              | Inr H \<Rightarrow>
                  (let s2 = s1\<lparr>HISTORY := H\<rparr>
                   in case BOT_USERNAME s2 of
                        None \<Rightarrow> (s2, t1, Some TypeError)
                      | Some handle \<Rightarrow>
                          if \<not> py_in handle (str_lower e (or_else (m_text msg) []))
                          then (s2, t1, None)
                          else (let prompt = strip (py_replace (or_else (m_text msg) []) handle [])
                                in if prompt = [] then (s2, t1 @ [Reply (usage_hint handle)], None)
                                   else (case answer_prompt e cfg msg prompt s2 of
                                           (s3, t3, r) \<Rightarrow> (s3, t1 @ t3, r))))))"

section \<open>Start-up\<close>

text \<open>
  What the module body takes from outside the repository:
  \<^item> \<open>int_of_str\<close>: \<open>int(s)\<close> on a string, \<open>None\<close> when it raises \<open>ValueError\<close> (its
    reading of Unicode digits and white space is part of the Python runtime);
  \<^item> \<open>new_bot\<close>: the exception that \<open>Bot(token, ...)\<close> raises for a token, if any (the
    token check of aiogram).
\<close>

record library =
  int_of_str :: "pystr \<Rightarrow> int option"
  new_bot :: "pystr \<Rightarrow> error option"

text \<open>\<open>int(x)\<close> on what \<open>os.getenv\<close> gives: \<open>TypeError\<close> on \<open>None\<close>.\<close>

definition py_int :: "library \<Rightarrow> pystr option \<Rightarrow> error + int" where
  "py_int lib x =
     (case x of
        None \<Rightarrow> Inl TypeError
      | Some s \<Rightarrow> (case int_of_str lib s of None \<Rightarrow> Inl ValueError | Some n \<Rightarrow> Inr n))"

text \<open>
  The module body, lines 27 to 49, on the process environment as it is after
  \<open>load_dotenv()\<close>: the exception that stops the import, or the configuration and the
  initial state.
\<close>

definition startup :: "library \<Rightarrow> (pystr \<rightharpoonup> pystr) \<Rightarrow> error + (config \<times> state)" where
  "startup lib environ =
     (let bot_token = environ (str ''BOT_TOKEN'');
          xai_api_key = environ (str ''XAI_API_KEY'')
      in if \<not> truthy bot_token then Inl (RuntimeError (str ''BOT_TOKEN missing - set it in .env''))
         else if \<not> truthy xai_api_key
           then Inl (RuntimeError (str ''XAI_API_KEY missing - set it in .env''))
         else (case new_bot lib (the bot_token) of
                 Some err \<Rightarrow> Inl err
               | None \<Rightarrow>
                   bind (py_int lib (environ (str ''MAX_SNIPPET_LEN''))) (\<lambda>max_snippet_len.
                   bind (py_int lib (environ (str ''MESSAGE_LIMIT''))) (\<lambda>message_limit.
                   Inr (\<lparr>XAI_API_KEY = xai_api_key, MAX_SNIPPET_LEN = max_snippet_len,
                         MESSAGE_HISTORY_LIMIT = message_limit\<rparr>,
                        \<lparr>BOT_USERNAME = None, BOT_DISPLAY = None, BOT_ID = None,
                         HISTORY = Map.empty\<rparr>)))))"

section \<open>Sample inputs\<close>

text \<open>
  The library functions on ASCII strings, for the sample inputs, which are ASCII:
  \<open>str.lower()\<close>; \<open>int(s)\<close> of Python 3.11 (white space around the literal, an optional
  sign, digits with single underscores between them, at most 4300 digits); the token
  check of aiogram (no white space, digits before the first colon, something after it).
\<close>

definition ascii_lower :: "pystr \<Rightarrow> pystr" where
  "ascii_lower s = map (\<lambda>c. if 65 \<le> c \<and> c \<le> 90 then c + 32 else c) s"

definition is_digit :: "nat \<Rightarrow> bool" where
  "is_digit c = (48 \<le> c \<and> c \<le> 57)"

definition valid_digits :: "pystr \<Rightarrow> bool" where
  "valid_digits b = (b \<noteq> [] \<and> is_digit (hd b) \<and> is_digit (last b)
      \<and> list_all (\<lambda>c. is_digit c \<or> c = 95) b \<and> \<not> sublist [95, 95] b
      \<and> length (filter is_digit b) \<le> 4300)"

definition ascii_int :: "pystr \<Rightarrow> int option" where
  "ascii_int s =
     (let sp = (\<lambda>c. (9 \<le> c \<and> c \<le> 13) \<or> c = 32);
          t = rev (dropWhile sp (rev (dropWhile sp s)));
          neg = (t \<noteq> [] \<and> hd t = 45);
          b = (if t \<noteq> [] \<and> (hd t = 45 \<or> hd t = 43) then tl t else t);
          n = int (foldl (\<lambda>a c. 10 * a + (c - 48)) 0 (filter is_digit b))
      in if valid_digits b then Some (if neg then - n else n) else None)"

definition ascii_new_bot :: "pystr \<Rightarrow> error option" where
  "ascii_new_bot token =
     (let left = takeWhile (\<lambda>c. c \<noteq> 58) token;
          rest = dropWhile (\<lambda>c. c \<noteq> 58) token
      in if list_ex isspace token \<or> rest = [] \<or> left = [] \<or> \<not> list_all is_digit left
            \<or> tl rest = []
         then Some TokenValidationError else None)"

definition library_ascii :: library where
  "library_ascii = \<lparr>int_of_str = ascii_int, new_bot = ascii_new_bot\<rparr>"

definition alice :: user where
  "alice = \<lparr>uid = 1001, first_name = str ''Alice'', last_name = None,
            username = Some (str ''alice'')\<rparr>"

definition grok_user :: user where
  "grok_user = \<lparr>uid = 7, first_name = str ''Grok'', last_name = None,
                username = Some (str ''Bot'')\<rparr>"

definition cfg_default :: config where
  "cfg_default = \<lparr>XAI_API_KEY = Some (str ''xai-key''), MAX_SNIPPET_LEN = 160,
                  MESSAGE_HISTORY_LIMIT = 30\<rparr>"

definition cfg_small :: config where
  "cfg_small = \<lparr>XAI_API_KEY = Some (str ''xai-key''), MAX_SNIPPET_LEN = 160,
                MESSAGE_HISTORY_LIMIT = 2\<rparr>"

definition ops3 :: "(int \<times> bool \<times> pystr) list" where
  "ops3 = [(1, False, str ''a''), (2, False, str ''x''), (1, True, str ''b''),
           (1, False, str ''c'')]"

definition cfg_zero :: config where
  "cfg_zero = \<lparr>XAI_API_KEY = Some (str ''xai-key''), MAX_SNIPPET_LEN = 0,
               MESSAGE_HISTORY_LIMIT = 30\<rparr>"

definition state_ready :: state where
  "state_ready = \<lparr>BOT_USERNAME = Some (str ''@bot''), BOT_DISPLAY = Some (str ''Grok''),
                  BOT_ID = Some 7, HISTORY = Map.empty\<rparr>"

definition state_initial :: state where
  "state_initial = \<lparr>BOT_USERNAME = None, BOT_DISPLAY = None, BOT_ID = None,
                    HISTORY = Map.empty\<rparr>"

definition cfg_huge :: config where
  "cfg_huge = \<lparr>XAI_API_KEY = Some (str ''xai-key''), MAX_SNIPPET_LEN = 160,
               MESSAGE_HISTORY_LIMIT = 2 ^ 63\<rparr>"

definition state_chat :: state where
  "state_chat = state_ready\<lparr>HISTORY := [42 \<mapsto> [(False, str ''> Alice (@alice): hello'')]]\<rparr>"

definition timed_out :: "http_request \<Rightarrow> http_result" where
  "timed_out req = RequestError (str ''timed out'')"


definition text_message :: "pystr \<Rightarrow> message" where
  "text_message t = Message 42 alice (Some t) None (str ''text'') None"

definition bot_message :: "pystr \<Rightarrow> message" where
  "bot_message t = Message 42 grok_user (Some t) None (str ''text'') None"

definition completion :: "pystr \<Rightarrow> json" where
  "completion t =
     JObj [(str ''choices'', JArr [JObj [(str ''message'', JObj [(str ''content'', JStr t)])]])]"

definition caption_message :: "pystr \<Rightarrow> message" where
  "caption_message c = Message 42 alice None (Some c) (str ''photo'') None"

definition env_with :: "http_result \<Rightarrow> env" where
  "env_with r = \<lparr>str_lower = ascii_lower, get_me = grok_user, post = (\<lambda>req. r),
                 send_answer = (\<lambda>t. Inr (bot_message t))\<rparr>"

definition ok_response :: "json \<Rightarrow> http_result" where
  "ok_response j = Responded \<lparr>status_code = 200, status_error = [], body_json = Some j\<rparr>"

section \<open>The snippet formatter (C4)\<close>









text \<open>
  The bound on the length is stated for \<open>MAX_SNIPPET_LEN\<close> of at least 1: with a bound of
  0 the slice \<open>text[:-1]\<close> drops only the last character, and the snippet is as long as
  the text.
\<close>

lemma snippet_zero_bound:
  "snippet cfg_zero (text_message (str ''abc'')) = str ''ab'' @ [ELLIPSIS]"
  by code_simp

section \<open>The history store (C5)\<close>

lemma deque_append_recent:
  "deque_append cap (drop (length xs - cap) xs) x = drop (length (xs @ [x]) - cap) (xs @ [x])"
proof (cases "cap \<le> length xs")
  case False
  then show ?thesis by (simp add: deque_append_def)
next
  case True
  show ?thesis
  proof (cases "cap = 0")
    case True
    then show ?thesis by (simp add: deque_append_def)
  next
    case False
    with True have "drop (length xs - cap) xs \<noteq> []" by simp
    moreover from True have "Suc (length xs) - cap = Suc (length xs - cap)" by simp
    ultimately show ?thesis using True
      by (simp add: deque_append_def drop_Suc tl_drop)
  qed
qed

lemma history_append_ok:
  "0 \<le> MESSAGE_HISTORY_LIMIT cfg \<Longrightarrow> MESSAGE_HISTORY_LIMIT cfg < 2 ^ 63 \<Longrightarrow>
   history_append cfg H c x = Inr (appended cfg H c x)"
  by (simp add: history_append_def history_getitem_def new_deque_def appended_def
           split: option.splits)

lemma history_append_bad_capacity:
  "history_append cfg_huge Map.empty c x = Inl OverflowError"
  "history_append (cfg_huge\<lparr>MESSAGE_HISTORY_LIMIT := - 1\<rparr>) Map.empty c x = Inl ValueError"
  by (simp_all add: history_append_def history_getitem_def new_deque_def cfg_huge_def)

lemma history_appends_snoc:
  "history_appends cfg H (ops @ [(c, x)]) =
     (case history_appends cfg H ops of Inl e \<Rightarrow> Inl e | Inr H' \<Rightarrow> history_append cfg H' c x)"
  by (induction ops arbitrary: H) (auto split: sum.splits)

lemma history_appends_recent:
  assumes "0 \<le> MESSAGE_HISTORY_LIMIT cfg" and "MESSAGE_HISTORY_LIMIT cfg < 2 ^ 63"
  shows "\<exists>H. history_appends cfg Map.empty ops = Inr H
           \<and> (\<forall>c. H c = (if lines_of c ops = [] then None
                         else Some (drop (length (lines_of c ops) - nat (MESSAGE_HISTORY_LIMIT cfg))
                                      (lines_of c ops))))"
proof (induction ops rule: rev_induct)
  case Nil
  show ?case by (simp add: lines_of_def)
next
  case (snoc op ops)
  obtain c x where op: "op = (c, x)" by (cases op)
  from snoc obtain H where H: "history_appends cfg Map.empty ops = Inr H"
    and Hc: "\<And>c. H c = (if lines_of c ops = [] then None
                         else Some (drop (length (lines_of c ops) - nat (MESSAGE_HISTORY_LIMIT cfg))
                                      (lines_of c ops)))" by blast
  have d: "(case H c of None \<Rightarrow> [] | Some d \<Rightarrow> d)
             = drop (length (lines_of c ops) - nat (MESSAGE_HISTORY_LIMIT cfg)) (lines_of c ops)"
    by (simp add: Hc)
  let ?cap = "nat (MESSAGE_HISTORY_LIMIT cfg)"
  let ?H' = "H(c \<mapsto> drop (length (lines_of c ops @ [x]) - ?cap) (lines_of c ops @ [x]))"
  have step: "history_appends cfg Map.empty (ops @ [op]) = Inr ?H'"
    unfolding op history_appends_snoc H
    by (simp only: sum.case history_append_ok[OF assms] appended_def d deque_append_recent)
  have same: "lines_of c (ops @ [op]) = lines_of c ops @ [x]"
    by (simp add: lines_of_def op)
  have other: "\<And>c'. c' \<noteq> c \<Longrightarrow> lines_of c' (ops @ [op]) = lines_of c' ops"
    by (simp add: lines_of_def op)
  have "\<forall>c'. ?H' c' = (if lines_of c' (ops @ [op]) = [] then None
                         else Some (drop (length (lines_of c' (ops @ [op])) - ?cap)
                                      (lines_of c' (ops @ [op]))))"
  proof
    fix c'
    show "?H' c' = (if lines_of c' (ops @ [op]) = [] then None
                         else Some (drop (length (lines_of c' (ops @ [op])) - ?cap)
                                      (lines_of c' (ops @ [op]))))"
    proof (cases "c' = c")
      case True
      then show ?thesis by (simp add: same)
    next
      case False
      then show ?thesis by (simp add: other Hc)
    qed
  qed
  with step show ?case by blast
qed

text \<open>
  C5: for a capacity from 0 to \<open>2^63 - 1\<close> (the bounds that \<open>deque\<close> accepts), every
  finite run of appends from the empty store succeeds, and afterwards the buffer of every conversation holds exactly the most
  recent \<open>min capacity n\<close> of the \<open>n\<close> entries appended to that conversation, in the order
  of insertion (a conversation with no append has no buffer); so no buffer is longer than
  the capacity. The run is arbitrary, so this holds after each append.
\<close>

theorem history_fifo:
  assumes "0 \<le> MESSAGE_HISTORY_LIMIT cfg" and "MESSAGE_HISTORY_LIMIT cfg < 2 ^ 63"
  shows "\<exists>H. history_appends cfg Map.empty ops = Inr H
           \<and> (\<forall>c. H c = (if lines_of c ops = [] then None
                  else Some (drop (length (lines_of c ops)
                                    - min (nat (MESSAGE_HISTORY_LIMIT cfg)) (length (lines_of c ops)))
                               (lines_of c ops))))
           \<and> (\<forall>c d. H c = Some d \<longrightarrow> length d \<le> nat (MESSAGE_HISTORY_LIMIT cfg))"
proof -
  from history_appends_recent[OF assms, of ops] obtain H where
    H: "history_appends cfg Map.empty ops = Inr H"
    and Hc: "\<And>c. H c = (if lines_of c ops = [] then None
                         else Some (drop (length (lines_of c ops) - nat (MESSAGE_HISTORY_LIMIT cfg))
                                      (lines_of c ops)))" by blast
  have a: "\<forall>c. H c = (if lines_of c ops = [] then None
                  else Some (drop (length (lines_of c ops)
                                    - min (nat (MESSAGE_HISTORY_LIMIT cfg)) (length (lines_of c ops)))
                               (lines_of c ops)))"
    by (simp add: Hc min_def)
  have b: "\<forall>c d. H c = Some d \<longrightarrow> length d \<le> nat (MESSAGE_HISTORY_LIMIT cfg)"
    by (auto simp: Hc split: if_splits)
  from H a b show ?thesis by blast
qed

theorem history_fifo_witness:
  "0 \<le> MESSAGE_HISTORY_LIMIT cfg_small \<and> MESSAGE_HISTORY_LIMIT cfg_small < 2 ^ 63
   \<and> (\<exists>H. history_appends cfg_small Map.empty ops3 = Inr H
          \<and> H 1 = Some [(True, str ''b''), (False, str ''c'')]
          \<and> H 2 = Some [(False, str ''x'')] \<and> H 3 = None)"
proof -
  have h: "0 \<le> MESSAGE_HISTORY_LIMIT cfg_small" by (simp add: cfg_small_def)
  have h2: "MESSAGE_HISTORY_LIMIT cfg_small < 2 ^ 63" by (simp add: cfg_small_def)
  from history_fifo[OF h h2, of ops3] obtain H where
    H: "history_appends cfg_small Map.empty ops3 = Inr H"
    and Hc: "\<And>c. H c = (if lines_of c ops3 = [] then None
                  else Some (drop (length (lines_of c ops3)
                              - min (nat (MESSAGE_HISTORY_LIMIT cfg_small)) (length (lines_of c ops3)))
                               (lines_of c ops3)))" by blast
  have "H 1 = Some [(True, str ''b''), (False, str ''c'')]"
    using Hc[of 1] by (simp add: lines_of_def ops3_def cfg_small_def)
  moreover have "H 2 = Some [(False, str ''x'')]"
    using Hc[of 2] by (simp add: lines_of_def ops3_def cfg_small_def)
  moreover have "H 3 = None"
    using Hc[of 3] by (simp add: lines_of_def ops3_def cfg_small_def)
  ultimately show ?thesis using h h2 H by blast
qed

section \<open>The context assembler and the completion client (C6, C8, C1)\<close>

lemma format_line_nonempty: "format_line cfg s r b \<noteq> []"
  by (simp add: format_line_def Let_def str_def)

lemma build_blocks_None:
  "build_blocks hl None p =
     (if hl = [] then [] else [str ''Chat history:'' @ [NEWLINE] @ join [NEWLINE] hl])
     @ [str ''User prompt:'' @ [NEWLINE] @ p]"
  by (simp add: build_blocks_def truthy_def)

lemma build_blocks_Some:
  "rl \<noteq> [] \<Longrightarrow> build_blocks hl (Some rl) p =
     (if hl = [] then [] else [str ''Chat history:'' @ [NEWLINE] @ join [NEWLINE] hl])
     @ (if rl \<in> set hl then [] else [str ''Replied message:'' @ [NEWLINE] @ rl])
     @ [str ''User prompt:'' @ [NEWLINE] @ p]"
  by (simp add: build_blocks_def truthy_def)

lemma history_getitem_ok:
  "0 \<le> MESSAGE_HISTORY_LIMIT cfg \<Longrightarrow> MESSAGE_HISTORY_LIMIT cfg < 2 ^ 63 \<Longrightarrow>
   \<exists>H. history_getitem cfg (HISTORY s) chat = Inr (H, case HISTORY s chat of None \<Rightarrow> [] | Some d \<Rightarrow> d)"
  by (simp add: history_getitem_def new_deque_def split: option.splits)

lemma ask_grok_posts_once:
  assumes "truthy (XAI_API_KEY cfg)" and "0 \<le> MESSAGE_HISTORY_LIMIT cfg"
    and "MESSAGE_HISTORY_LIMIT cfg < 2 ^ 63"
  shows "\<exists>s' req. ask_grok cfg http s chat prompt replied_line
                    = (s', [HttpPost req], handle_result (http req))
           \<and> body req = build_payload (map snd (case HISTORY s chat of None \<Rightarrow> [] | Some d \<Rightarrow> d))
                           replied_line prompt"
proof -
  from history_getitem_ok[OF assms(2,3), of s chat] obtain H where
    "history_getitem cfg (HISTORY s) chat = Inr (H, case HISTORY s chat of None \<Rightarrow> [] | Some d \<Rightarrow> d)"
    by blast
  then show ?thesis using assms(1) by (simp add: ask_grok_def Let_def)
qed

text \<open>
  C6: with the credential present and a capacity from 0 to \<open>2^63 - 1\<close>, \<open>ask_grok\<close>
  issues one POST whose messages are the fixed system instruction and one user entry. The user
  content is the blocks joined by a blank line, in this order: the \<open>Chat history\<close> block
  when the history is not empty, with every history line in order, one per line; the
  \<open>Replied message\<close> block when a reply line (the rendering of the replied-to message) is
  given and is not equal to a history line; the \<open>User prompt\<close> block with the prompt.
\<close>

theorem ask_grok_request_blocks:
  assumes "truthy (XAI_API_KEY cfg)" and "0 \<le> MESSAGE_HISTORY_LIMIT cfg"
    and "MESSAGE_HISTORY_LIMIT cfg < 2 ^ 63"
  shows "let history_lines = map snd (case HISTORY s chat of None \<Rightarrow> [] | Some d \<Rightarrow> d) in
         \<exists>s' req res.
           ask_grok cfg http s chat prompt (map_option (\<lambda>(r, b). format_line cfg s r b) replied)
             = (s', [HttpPost req], res)
           \<and> messages (body req) =
               [(str ''system'',
                 str ''You are Grok integrated into a Telegram group chat. ''
                 @ str ''Respond concisely and helpfully using the context.''),
                (str ''user'', join [NEWLINE, NEWLINE]
                   ((if history_lines = [] then []
                     else [str ''Chat history:'' @ [NEWLINE] @ join [NEWLINE] history_lines])
                    @ (case replied of
                         None \<Rightarrow> []
                       | Some (r, b) \<Rightarrow>
                           if format_line cfg s r b \<in> set history_lines then []
                           else [str ''Replied message:'' @ [NEWLINE] @ format_line cfg s r b])
                    @ [str ''User prompt:'' @ [NEWLINE] @ prompt]))]"
proof -
  let ?hl = "map snd (case HISTORY s chat of None \<Rightarrow> [] | Some d \<Rightarrow> d)"
  let ?rl = "map_option (\<lambda>(r, b). format_line cfg s r b) replied"
  from ask_grok_posts_once[OF assms, of http s chat prompt ?rl] obtain s' req where
    a: "ask_grok cfg http s chat prompt ?rl = (s', [HttpPost req], handle_result (http req))"
    and b: "body req = build_payload ?hl ?rl prompt" by blast
  have c: "build_blocks ?hl ?rl prompt =
            (if ?hl = [] then []
                     else [str ''Chat history:'' @ [NEWLINE] @ join [NEWLINE] ?hl])
                    @ (case replied of
                         None \<Rightarrow> []
                       | Some (r, b) \<Rightarrow>
                           if format_line cfg s r b \<in> set ?hl then []
                           else [str ''Replied message:'' @ [NEWLINE] @ format_line cfg s r b])
                    @ [str ''User prompt:'' @ [NEWLINE] @ prompt]"
  proof (cases replied)
    case None
    then show ?thesis by (simp only: option.map option.case build_blocks_None append_Nil)
  next
    case (Some rb)
    obtain r b where rb: "rb = (r, b)" by (cases rb)
    show ?thesis unfolding Some rb
      by (simp only: option.map option.case prod.case build_blocks_Some[OF format_line_nonempty])
  qed
  have "messages (body req) =
          [(str ''system'',
            str ''You are Grok integrated into a Telegram group chat. ''
            @ str ''Respond concisely and helpfully using the context.''),
           (str ''user'', join [NEWLINE, NEWLINE] (build_blocks ?hl ?rl prompt))]"
    by (simp add: b build_payload_def SYSTEM_INSTRUCTION_def)
  with a show ?thesis unfolding Let_def c by blast
qed

theorem ask_grok_request_blocks_witness:
  "truthy (XAI_API_KEY cfg_default) \<and> 0 \<le> MESSAGE_HISTORY_LIMIT cfg_default
   \<and> MESSAGE_HISTORY_LIMIT cfg_default < 2 ^ 63
   \<and> (\<exists>s' req res.
         ask_grok cfg_default timed_out state_chat 42 (str ''why?'')
           (Some (format_line cfg_default state_chat (text_message (str ''bye'')) False))
           = (s', [HttpPost req], res)
         \<and> messages (body req) =
             [(str ''system'',
               str ''You are Grok integrated into a Telegram group chat. ''
               @ str ''Respond concisely and helpfully using the context.''),
              (str ''user'',
               str ''Chat history:'' @ [NEWLINE] @ str ''> Alice (@alice): hello''
               @ [NEWLINE, NEWLINE]
               @ str ''Replied message:'' @ [NEWLINE] @ str ''> Alice (@alice): bye''
               @ [NEWLINE, NEWLINE]
               @ str ''User prompt:'' @ [NEWLINE] @ str ''why?'')])"
proof -
  have k: "truthy (XAI_API_KEY cfg_default)" by (simp add: cfg_default_def truthy_def str_def)
  have l: "0 \<le> MESSAGE_HISTORY_LIMIT cfg_default" by (simp add: cfg_default_def)
  have l2: "MESSAGE_HISTORY_LIMIT cfg_default < 2 ^ 63" by (simp add: cfg_default_def)
  have f: "format_line cfg_default state_chat (text_message (str ''bye'')) False
             = str ''> Alice (@alice): bye''"
    by code_simp
  have h: "map snd (case HISTORY state_chat 42 of None \<Rightarrow> [] | Some d \<Rightarrow> d)
             = [str ''> Alice (@alice): hello'']"
    by (simp add: state_chat_def)
  have ne: "str ''> Alice (@alice): bye'' \<noteq> str ''> Alice (@alice): hello''"
    by (simp add: str_def)
  note r = ask_grok_request_blocks [OF k l l2, where s = state_chat and chat = 42
              and http = timed_out and prompt = "str ''why?''"
              and replied = "Some (text_message (str ''bye''), False)"]
  from r show ?thesis using k l l2 ne
    by (simp add: Let_def h f)
qed



text \<open>
  C1 fails on the code. A response with status 200 whose body is the empty JSON object
  makes \<open>ask_grok\<close> raise \<open>KeyError\<close>, and one whose body has an empty \<open>choices\<close> list
  makes it raise \<open>IndexError\<close>: the subscripts of line 167 are inside a \<open>try\<close> that
  catches \<open>httpx.HTTPError\<close> only.
\<close>

theorem ask_grok_missing_content_raises:
  "snd (snd (ask_grok cfg_default (\<lambda>req. ok_response (JObj [])) state_ready 42 (str ''hi'') None))
     = Inl KeyError
   \<and> snd (snd (ask_grok cfg_default (\<lambda>req. ok_response (JObj [(str ''choices'', JArr [])]))
                 state_ready 42 (str ''hi'') None))
     = Inl IndexError"
  by (simp add: ask_grok_def cfg_default_def state_ready_def truthy_def history_getitem_def new_deque_def Let_def
       handle_result_def ok_response_def bind_def getitem_key_def getitem_0_def str_def)

section \<open>The group handler (C7, C9, C10, C2)\<close>

lemma ensure_identity_trace:
  "ensure_identity e s = (s1, t1, r) \<Longrightarrow>
     HISTORY s1 = HISTORY s \<and> (t1 = [] \<or> t1 = [GetMe])"
  by (auto simp: ensure_identity_def Let_def split: if_splits option.splits)

lemma format_line_history_irrelevant:
  "format_line cfg (s\<lparr>HISTORY := H\<rparr>) m b = format_line cfg s m b"
  by (simp add: format_line_def Let_def)

lemma ask_grok_existing_buffer:
  assumes "HISTORY s c = Some d"
  shows "\<exists>t res. ask_grok cfg http s c p rl = (s, t, res) \<and> (\<forall>a. Answer a \<notin> set t)"
  using assms by (simp add: ask_grok_def history_getitem_def Let_def)

lemma answer_prompt_cases:
  assumes lim: "0 \<le> MESSAGE_HISTORY_LIMIT cfg" and lim2: "MESSAGE_HISTORY_LIMIT cfg < 2 ^ 63"
      and buf: "HISTORY s (chat_id msg) = Some d"
  shows "(\<exists>t r. answer_prompt e cfg msg p s = (s, t, r) \<and> (\<forall>a. Answer a \<notin> set t))
       \<or> (\<exists>t tx sent. send_answer e tx = Inr sent
                 \<and> answer_prompt e cfg msg p s =
                   (s\<lparr>HISTORY := appended cfg (HISTORY s) (chat_id msg)
                                   (True, format_line cfg s sent True)\<rparr>,
                    t @ [Answer (JStr tx)], None)
                 \<and> (\<forall>a'. Answer a' \<notin> set t))"
proof -
  let ?rl = "case reply_to_message msg of None \<Rightarrow> None
             | Some r \<Rightarrow> Some (format_line cfg s r (Some (uid (from_user r)) = BOT_ID s))"
  from ask_grok_existing_buffer[OF buf, of cfg "post e" p ?rl] obtain t res where
    a: "ask_grok cfg (post e) s (chat_id msg) p ?rl = (s, t, res)"
    and n: "\<forall>a. Answer a \<notin> set t" by blast
  from n have n': "\<forall>a. Answer a \<notin> set (ChatAction (str ''typing'') # t)" by simp
  have quiet: "\<And>r. answer_prompt e cfg msg p s = (s, ChatAction (str ''typing'') # t, r)
                 \<Longrightarrow> ?thesis"
    using n' by blast
  show ?thesis
  proof (cases res)
    case (Inl err)
    with a have "answer_prompt e cfg msg p s = (s, ChatAction (str ''typing'') # t, Some err)"
      by (simp add: answer_prompt_def Let_def)
    then show ?thesis by (rule quiet)
  next
    case (Inr ans)
    show ?thesis
    proof (cases "\<exists>tx. ans = JStr tx")
      case False
      with a Inr
      have "answer_prompt e cfg msg p s
              = (s, ChatAction (str ''typing'') # t, Some ValidationError)"
        by (cases ans) (simp_all add: answer_prompt_def Let_def)
      then show ?thesis by (rule quiet)
    next
      case True
      then obtain tx where tx: "ans = JStr tx" by blast
      show ?thesis
      proof (cases "send_answer e tx")
        case (Inl err)
        with a \<open>res = Inr ans\<close> tx
        have "answer_prompt e cfg msg p s = (s, ChatAction (str ''typing'') # t, Some err)"
          by (simp add: answer_prompt_def Let_def)
        then show ?thesis by (rule quiet)
      next
        case (Inr sent)
        with a \<open>res = Inr ans\<close> tx
        have "answer_prompt e cfg msg p s =
                (s\<lparr>HISTORY := appended cfg (HISTORY s) (chat_id msg)
                                (True, format_line cfg s sent True)\<rparr>,
                 (ChatAction (str ''typing'') # t) @ [Answer (JStr tx)], None)"
          by (simp add: answer_prompt_def Let_def history_append_ok[OF lim lim2])
        with Inr n' show ?thesis by blast
      qed
    qed
  qed
qed

lemma appended_same: "appended cfg H c x c \<noteq> None"
  by (simp add: appended_def)

text \<open>
  C7: when the capacity is from 0 to \<open>2^63 - 1\<close> and the identity resolves, every run of
  the handler on an inbound message ends in one of two ways, whether or not the bot is
  mentioned. Either no answer was sent, and the history is the old one with the line of
  the inbound message appended once; or exactly one answer was sent, as the last effect,
  and the history is the old one with the line of the inbound message and then the line of
  the bot's answer appended. Nothing else of the state changes.
\<close>

theorem handle_group_history:
  assumes lim: "0 \<le> MESSAGE_HISTORY_LIMIT cfg" and lim2: "MESSAGE_HISTORY_LIMIT cfg < 2 ^ 63"
      and ident: "ensure_identity e s = (s1, t1, None)"
  shows "let is_bot_msg = (Some (uid (from_user msg)) = BOT_ID s1);
             H1 = appended cfg (HISTORY s1) (chat_id msg)
                    (is_bot_msg, format_line cfg s1 msg is_bot_msg)
         in (\<exists>tr r. handle_group e cfg msg s = (s1\<lparr>HISTORY := H1\<rparr>, tr, r)
                    \<and> (\<forall>a. Answer a \<notin> set tr))
          \<or> (\<exists>tr tx sent. send_answer e tx = Inr sent
                    \<and> handle_group e cfg msg s =
                       (s1\<lparr>HISTORY := appended cfg H1 (chat_id msg)
                                         (True, format_line cfg s1 sent True)\<rparr>,
                        tr @ [Answer (JStr tx)], None)
                    \<and> (\<forall>a'. Answer a' \<notin> set tr))"
proof -
  define is_bot_msg where "is_bot_msg = (Some (uid (from_user msg)) = BOT_ID s1)"
  define H1 where "H1 = appended cfg (HISTORY s1) (chat_id msg)
                    (is_bot_msg, format_line cfg s1 msg is_bot_msg)"
  define s2 where "s2 = s1\<lparr>HISTORY := H1\<rparr>"
  from ensure_identity_trace[OF ident] have t1: "\<forall>a. Answer a \<notin> set t1" by auto
  have buf: "\<exists>d. HISTORY s2 (chat_id msg) = Some d"
    using appended_same[of cfg "HISTORY s1" "chat_id msg"] by (auto simp: s2_def H1_def)
  have hg: "handle_group e cfg msg s =
     (case BOT_USERNAME s2 of
        None \<Rightarrow> (s2, t1, Some TypeError)
      | Some handle \<Rightarrow>
          if \<not> py_in handle (str_lower e (or_else (m_text msg) [])) then (s2, t1, None)
          else (let prompt = strip (py_replace (or_else (m_text msg) []) handle [])
                in if prompt = [] then (s2, t1 @ [Reply (usage_hint handle)], None)
                   else (case answer_prompt e cfg msg prompt s2 of
                           (s3, t3, r) \<Rightarrow> (s3, t1 @ t3, r))))"
    unfolding s2_def H1_def is_bot_msg_def
    by (simp add: handle_group_def ident history_append_ok[OF lim lim2] Let_def)
  have goal: "(\<exists>tr r. handle_group e cfg msg s = (s2, tr, r) \<and> (\<forall>a. Answer a \<notin> set tr))
          \<or> (\<exists>tr tx sent. send_answer e tx = Inr sent
                    \<and> handle_group e cfg msg s =
                       (s2\<lparr>HISTORY := appended cfg (HISTORY s2) (chat_id msg)
                                         (True, format_line cfg s2 sent True)\<rparr>,
                        tr @ [Answer (JStr tx)], None)
                    \<and> (\<forall>a'. Answer a' \<notin> set tr))"
  proof (cases "BOT_USERNAME s2")
    case None
    with hg t1 show ?thesis by simp
  next
    case (Some h)
    show ?thesis
    proof (cases "py_in h (str_lower e (or_else (m_text msg) []))")
      case False
      with hg Some t1 show ?thesis by simp
    next
      case True
      show ?thesis
      proof (cases "strip (py_replace (or_else (m_text msg) []) h []) = []")
        case True
        with hg Some \<open>py_in h (str_lower e (or_else (m_text msg) []))\<close> t1
        show ?thesis by simp
      next
        case False
        let ?p = "strip (py_replace (or_else (m_text msg) []) h [])"
        from hg Some \<open>py_in h (str_lower e (or_else (m_text msg) []))\<close> False
        have hg': "handle_group e cfg msg s =
                     (case answer_prompt e cfg msg ?p s2 of (s3, t3, r) \<Rightarrow> (s3, t1 @ t3, r))"
          by simp
        from buf obtain d where d: "HISTORY s2 (chat_id msg) = Some d" by blast
        from answer_prompt_cases[OF lim lim2 d, of e ?p] show ?thesis
        proof
          assume "\<exists>t r. answer_prompt e cfg msg ?p s2 = (s2, t, r) \<and> (\<forall>a. Answer a \<notin> set t)"
          then obtain t r where "answer_prompt e cfg msg ?p s2 = (s2, t, r)"
            and "\<forall>a. Answer a \<notin> set t" by blast
          with hg' t1 have "handle_group e cfg msg s = (s2, t1 @ t, r)
                            \<and> (\<forall>a. Answer a \<notin> set (t1 @ t))" by simp
          then show ?thesis by blast
        next
          assume "\<exists>t tx sent. send_answer e tx = Inr sent
                 \<and> answer_prompt e cfg msg ?p s2 =
                   (s2\<lparr>HISTORY := appended cfg (HISTORY s2) (chat_id msg)
                                   (True, format_line cfg s2 sent True)\<rparr>,
                    t @ [Answer (JStr tx)], None)
                 \<and> (\<forall>a'. Answer a' \<notin> set t)"
          then obtain t tx sent where "send_answer e tx = Inr sent"
            and "answer_prompt e cfg msg ?p s2 =
                   (s2\<lparr>HISTORY := appended cfg (HISTORY s2) (chat_id msg)
                                   (True, format_line cfg s2 sent True)\<rparr>,
                    t @ [Answer (JStr tx)], None)" and "\<forall>a'. Answer a' \<notin> set t" by blast
          with hg' t1 have "send_answer e tx = Inr sent
                 \<and> handle_group e cfg msg s =
                   (s2\<lparr>HISTORY := appended cfg (HISTORY s2) (chat_id msg)
                                   (True, format_line cfg s2 sent True)\<rparr>,
                    (t1 @ t) @ [Answer (JStr tx)], None)
                 \<and> (\<forall>a'. Answer a' \<notin> set (t1 @ t))" by simp
          then show ?thesis by blast
        qed
      qed
    qed
  qed
  have eqs: "\<And>sent. s2\<lparr>HISTORY := appended cfg (HISTORY s2) (chat_id msg)
                                   (True, format_line cfg s2 sent True)\<rparr>
            = s1\<lparr>HISTORY := appended cfg H1 (chat_id msg)
                                         (True, format_line cfg s1 sent True)\<rparr>"
    by (simp add: s2_def format_line_history_irrelevant)
  from goal show ?thesis
    unfolding Let_def eqs is_bot_msg_def[symmetric] H1_def[symmetric] s2_def[symmetric] .
qed

lemma ensure_identity_ready:
  "ensure_identity e state_ready = (state_ready, [], None)"
  by (simp add: ensure_identity_def state_ready_def)

lemma ensure_identity_initial:
  "ensure_identity (env_with r) state_initial = (state_ready, [GetMe], None)"
  by (simp add: ensure_identity_def state_initial_def state_ready_def env_with_def
        grok_user_def ascii_lower_def or_else_def str_def)

theorem handle_group_history_witness:
  "0 \<le> MESSAGE_HISTORY_LIMIT cfg_default \<and> MESSAGE_HISTORY_LIMIT cfg_default < 2 ^ 63
   \<and> ensure_identity (env_with (ok_response (completion (str ''ok'')))) state_initial
       = (state_ready, [GetMe], None)
   \<and> HISTORY (fst (handle_group (env_with (ok_response (completion (str ''ok'')))) cfg_default
                     (text_message (str ''@bot hi'')) state_initial)) 42
       = Some [(False, str ''> Alice (@alice): @bot hi''), (True, str ''> Grok (you): ok'')]"
proof -
  let ?e = "env_with (ok_response (completion (str ''ok'')))"
  let ?m = "text_message (str ''@bot hi'')"
  let ?hg = "handle_group ?e cfg_default ?m state_initial"
  have l: "0 \<le> MESSAGE_HISTORY_LIMIT cfg_default" by (simp add: cfg_default_def)
  have l2: "MESSAGE_HISTORY_LIMIT cfg_default < 2 ^ 63" by (simp add: cfg_default_def)
  have i: "ensure_identity ?e state_initial = (state_ready, [GetMe], None)"
    by (rule ensure_identity_initial)
  have tr: "last (fst (snd ?hg)) = Answer (JStr (str ''ok'')) \<and> fst (snd ?hg) \<noteq> []"
    by code_simp
  have se: "\<And>tx sent. send_answer ?e tx = Inr sent \<Longrightarrow> sent = bot_message tx"
    by (auto simp: env_with_def)
  let ?ib = "(Some (uid (from_user ?m)) = BOT_ID state_ready)"
  let ?H1 = "appended cfg_default (HISTORY state_ready) (chat_id ?m)
               (?ib, format_line cfg_default state_ready ?m ?ib)"
  from handle_group_history [OF l l2 i, of ?m]
  have "(\<exists>tr r. ?hg = (state_ready\<lparr>HISTORY := ?H1\<rparr>, tr, r) \<and> (\<forall>a. Answer a \<notin> set tr))
      \<or> (\<exists>tr tx sent. send_answer ?e tx = Inr sent
             \<and> ?hg = (state_ready\<lparr>HISTORY := appended cfg_default ?H1 (chat_id ?m)
                          (True, format_line cfg_default state_ready sent True)\<rparr>,
                        tr @ [Answer (JStr tx)], None) \<and> (\<forall>a'. Answer a' \<notin> set tr))"
    by (simp only: Let_def)
  then have "HISTORY (fst ?hg) = appended cfg_default ?H1 (chat_id ?m)
                (True, format_line cfg_default state_ready (bot_message (str ''ok'')) True)"
  proof
    assume "\<exists>tr r. ?hg = (state_ready\<lparr>HISTORY := ?H1\<rparr>, tr, r) \<and> (\<forall>a. Answer a \<notin> set tr)"
    then obtain tr' r where a: "?hg = (state_ready\<lparr>HISTORY := ?H1\<rparr>, tr', r)"
      and b: "\<forall>a. Answer a \<notin> set tr'" by blast
    from tr a have "tr' \<noteq> [] \<and> last tr' = Answer (JStr (str ''ok''))" by simp
    then have "Answer (JStr (str ''ok'')) \<in> set tr'" by (metis last_in_set)
    with b show ?thesis by blast
  next
    assume "\<exists>tr tx sent. send_answer ?e tx = Inr sent
             \<and> ?hg = (state_ready\<lparr>HISTORY := appended cfg_default ?H1 (chat_id ?m)
                          (True, format_line cfg_default state_ready sent True)\<rparr>,
                        tr @ [Answer (JStr tx)], None) \<and> (\<forall>a'. Answer a' \<notin> set tr)"
    then obtain tr' tx sent where s: "send_answer ?e tx = Inr sent"
      and a: "?hg = (state_ready\<lparr>HISTORY := appended cfg_default ?H1 (chat_id ?m)
                          (True, format_line cfg_default state_ready sent True)\<rparr>,
                        tr' @ [Answer (JStr tx)], None)" by blast
    from tr a have "tx = str ''ok''" by simp
    with se[OF s] have "sent = bot_message (str ''ok'')" by simp
    with a show ?thesis by simp
  qed
  moreover have "appended cfg_default ?H1 (chat_id ?m)
                (True, format_line cfg_default state_ready (bot_message (str ''ok'')) True) 42
     = Some [(False, str ''> Alice (@alice): @bot hi''), (True, str ''> Grok (you): ok'')]"
    by code_simp
  ultimately show ?thesis using l l2 i by simp
qed

lemma handle_group_after_append:
  assumes lim: "0 \<le> MESSAGE_HISTORY_LIMIT cfg" and lim2: "MESSAGE_HISTORY_LIMIT cfg < 2 ^ 63"
      and ident: "ensure_identity e s = (s1, t1, None)"
      and handle: "BOT_USERNAME s1 = Some h"
  shows "handle_group e cfg msg s =
     (let is_bot_msg = (Some (uid (from_user msg)) = BOT_ID s1);
          s2 = s1\<lparr>HISTORY := appended cfg (HISTORY s1) (chat_id msg)
                                 (is_bot_msg, format_line cfg s1 msg is_bot_msg)\<rparr>
      in if \<not> py_in h (str_lower e (or_else (m_text msg) [])) then (s2, t1, None)
         else (let prompt = strip (py_replace (or_else (m_text msg) []) h [])
               in if prompt = [] then (s2, t1 @ [Reply (usage_hint h)], None)
                  else (case answer_prompt e cfg msg prompt s2 of
                          (s3, t3, r) \<Rightarrow> (s3, t1 @ t3, r))))"
  by (simp add: handle_group_def ident history_append_ok[OF lim lim2] Let_def handle)

lemma py_in_empty_text: "h \<noteq> [] \<Longrightarrow> \<not> py_in h []"
  by (simp add: py_in_def)



text \<open>
  C10: when the capacity is from 0 to \<open>2^63 - 1\<close> and the identity resolves to a handle
  that is not empty, a message with no text whose caption contains the handle is appended
  to the history, rendered from its caption, and the handler returns at the mention gate:
  the effects are those of the identity resolution only, with no reply, no answer and no
  POST. (The gate applies \<open>str.lower()\<close> to the empty string, which gives the empty string.)
\<close>

theorem handle_group_caption_mention:
  assumes lim: "0 \<le> MESSAGE_HISTORY_LIMIT cfg" and lim2: "MESSAGE_HISTORY_LIMIT cfg < 2 ^ 63"
      and ident: "ensure_identity e s = (s1, t1, None)"
      and handle: "BOT_USERNAME s1 = Some h" and nonempty: "h \<noteq> []"
      and lower_empty: "str_lower e [] = []"
      and no_text: "m_text msg = None"
      and caption: "m_caption msg = Some c" and mention: "py_in h (str_lower e c)"
  shows "handle_group e cfg msg s =
           (s1\<lparr>HISTORY := appended cfg (HISTORY s1) (chat_id msg)
                   (Some (uid (from_user msg)) = BOT_ID s1,
                    format_line cfg s1 msg (Some (uid (from_user msg)) = BOT_ID s1))\<rparr>,
            t1, None)
       \<and> source_text msg = py_replace c [NEWLINE] (str '' '')
       \<and> (\<forall>x. Reply x \<notin> set t1) \<and> (\<forall>a. Answer a \<notin> set t1)
       \<and> (\<forall>req. HttpPost req \<notin> set t1)"
proof -
  from ensure_identity_trace[OF ident] have "t1 = [] \<or> t1 = [GetMe]" by blast
  then have a: "(\<forall>x. Reply x \<notin> set t1) \<and> (\<forall>a. Answer a \<notin> set t1)
       \<and> (\<forall>req. HttpPost req \<notin> set t1)" by auto
  have "c \<noteq> []"
  proof
    assume "c = []"
    with mention lower_empty have "py_in h []" by simp
    with py_in_empty_text[OF nonempty] show False by blast
  qed
  then have b: "source_text msg = py_replace c [NEWLINE] (str '' '')"
    by (simp add: source_text_def or_else_def no_text caption)
  have "or_else (m_text msg) [] = []" by (simp add: or_else_def no_text)
  with py_in_empty_text[OF nonempty] lower_empty
  have "\<not> py_in h (str_lower e (or_else (m_text msg) []))" by simp
  then have "handle_group e cfg msg s =
           (s1\<lparr>HISTORY := appended cfg (HISTORY s1) (chat_id msg)
                   (Some (uid (from_user msg)) = BOT_ID s1,
                    format_line cfg s1 msg (Some (uid (from_user msg)) = BOT_ID s1))\<rparr>,
            t1, None)"
    by (simp add: handle_group_after_append[OF lim lim2 ident handle] Let_def)
  with a b show ?thesis by blast
qed

theorem handle_group_caption_mention_witness:
  "0 \<le> MESSAGE_HISTORY_LIMIT cfg_default \<and> MESSAGE_HISTORY_LIMIT cfg_default < 2 ^ 63
   \<and> ensure_identity (env_with (ok_response (completion (str ''ok'')))) state_ready
       = (state_ready, [], None)
   \<and> BOT_USERNAME state_ready = Some (str ''@bot'') \<and> str ''@bot'' \<noteq> []
   \<and> str_lower (env_with (ok_response (completion (str ''ok'')))) [] = []
   \<and> m_text (caption_message (str ''@bot look'')) = None
   \<and> m_caption (caption_message (str ''@bot look'')) = Some (str ''@bot look'')
   \<and> py_in (str ''@bot'')
        (str_lower (env_with (ok_response (completion (str ''ok'')))) (str ''@bot look''))
   \<and> snd (handle_group (env_with (ok_response (completion (str ''ok'')))) cfg_default
             (caption_message (str ''@bot look'')) state_ready) = ([], None)
   \<and> HISTORY (fst (handle_group (env_with (ok_response (completion (str ''ok'')))) cfg_default
             (caption_message (str ''@bot look'')) state_ready)) 42
       = Some [(False, str ''> Alice (@alice): @bot look'')]"
proof -
  let ?e = "env_with (ok_response (completion (str ''ok'')))"
  let ?m = "caption_message (str ''@bot look'')"
  have l: "0 \<le> MESSAGE_HISTORY_LIMIT cfg_default" by (simp add: cfg_default_def)
  have l2: "MESSAGE_HISTORY_LIMIT cfg_default < 2 ^ 63" by (simp add: cfg_default_def)
  have i: "ensure_identity ?e state_ready = (state_ready, [], None)"
    by (rule ensure_identity_ready)
  have h: "BOT_USERNAME state_ready = Some (str ''@bot'')" by (simp add: state_ready_def)
  have n: "str ''@bot'' \<noteq> []" by (simp add: str_def)
  have le: "str_lower ?e [] = []" by (simp add: env_with_def ascii_lower_def)
  have t: "m_text ?m = None" by (simp add: caption_message_def)
  have c: "m_caption ?m = Some (str ''@bot look'')" by (simp add: caption_message_def)
  have m: "py_in (str ''@bot'') (str_lower ?e (str ''@bot look''))" by code_simp
  note r = handle_group_caption_mention [OF l l2 i h n le t c m]
  from r have a: "snd (handle_group ?e cfg_default ?m state_ready) = ([], None)" by simp
  from r have "HISTORY (fst (handle_group ?e cfg_default ?m state_ready)) 42
     = appended cfg_default (HISTORY state_ready) (chat_id ?m)
                   (Some (uid (from_user ?m)) = BOT_ID state_ready,
                    format_line cfg_default state_ready ?m
                      (Some (uid (from_user ?m)) = BOT_ID state_ready)) 42" by simp
  also have "\<dots> = Some [(False, str ''> Alice (@alice): @bot look'')]" by code_simp
  finally have b: "HISTORY (fst (handle_group ?e cfg_default ?m state_ready)) 42
     = Some [(False, str ''> Alice (@alice): @bot look'')]" .
  from l l2 i h n le t c m a b show ?thesis by blast
qed

text \<open>
  C2 fails on the code. The gate of line 197 compares the handle with the lowercased
  text, but line 200 removes the lowercased handle from the text as it was typed. With the
  handle \<open>@bot\<close>, the message \<open>@Bot hi\<close> passes the gate and the prompt sent to the
  completion service is \<open>@Bot hi\<close>, the mention still in it; the message \<open>@BOT\<close> alone is
  sent on as the prompt \<open>@BOT\<close> instead of being answered with the usage hint.
\<close>

theorem handle_group_keeps_cased_mention:
  "fst (snd (handle_group (env_with (ok_response (completion (str ''ok'')))) cfg_default
               (text_message (str ''@Bot hi'')) state_ready))
     = [ChatAction (str ''typing''),
        HttpPost \<lparr>url = str ''https://api.x.ai/v1/chat/completions'',
                  authorization = str ''Bearer xai-key'',
                  body = build_payload [str ''> Alice (@alice): @Bot hi''] None (str ''@Bot hi'')\<rparr>,
        Answer (JStr (str ''ok''))]
   \<and> fst (snd (handle_group (env_with (ok_response (completion (str ''ok'')))) cfg_default
               (text_message (str ''@BOT'')) state_ready))
     = [ChatAction (str ''typing''),
        HttpPost \<lparr>url = str ''https://api.x.ai/v1/chat/completions'',
                  authorization = str ''Bearer xai-key'',
                  body = build_payload [str ''> Alice (@alice): @BOT''] None (str ''@BOT'')\<rparr>,
        Answer (JStr (str ''ok''))]"
  by code_simp

section \<open>Start-up (C3)\<close>

text \<open>With all four values in the environment the module body gives the configuration.\<close>

lemma startup_with_all_values:
  "map_sum id fst (startup library_ascii
     [str ''BOT_TOKEN'' \<mapsto> str ''123:abc'', str ''XAI_API_KEY'' \<mapsto> str ''xai-key'',
      str ''MAX_SNIPPET_LEN'' \<mapsto> str ''160'', str ''MESSAGE_LIMIT'' \<mapsto> str ''30''])
     = Inr cfg_default"
  by code_simp

text \<open>
  C3 fails on the code. With both credentials set and neither \<open>MAX_SNIPPET_LEN\<close> nor
  \<open>MESSAGE_LIMIT\<close> in the environment, \<open>int(os.getenv("MAX_SNIPPET_LEN"))\<close> is \<open>int(None)\<close>:
  the import stops with \<open>TypeError\<close>, and no default is taken.
\<close>

theorem startup_without_optional_values:
  "startup library_ascii
     [str ''BOT_TOKEN'' \<mapsto> str ''123:abc'', str ''XAI_API_KEY'' \<mapsto> str ''xai-key'']
     = Inl TypeError"
  by (simp add: startup_def Let_def truthy_def py_int_def bind_def str_def library_ascii_def
        ascii_new_bot_def isspace_def is_digit_def)

end
